theory Spec2Isabelle
  imports
    Main
    "HOL-Library.Char_ord"
    "HOL-Library.List_Lexorder"
    "HOL-Library.Option_ord"
    "HOL-Library.Product_Lexorder"
begin

section \<open>The store of server.ts\<close>

text \<open>
  The server of \<^verbatim>\<open>server.ts\<close> keeps the tables \<^verbatim>\<open>users\<close>, \<^verbatim>\<open>auth_records\<close> and \<^verbatim>\<open>settings\<close>
  in an SQLite database and answers each HTTP request with one SQL statement after the
  middleware \<^verbatim>\<open>authenticateToken\<close> and \<^verbatim>\<open>isAdmin\<close> have let the request through. The
  model is a state-passing function: a request, the cookie it carries and the clock go
  in, the response and the updated store come out.

  A nullable \<^verbatim>\<open>TEXT\<close> column, and a field of the JSON body that is a string or is
  missing, is a \<open>string option\<close>: \<open>None\<close> is SQL's \<^verbatim>\<open>NULL\<close> and JavaScript's
  \<^verbatim>\<open>undefined\<close> (the database driver binds \<^verbatim>\<open>undefined\<close> as \<^verbatim>\<open>NULL\<close>). Request bodies are
  modelled at the types \<^verbatim>\<open>src/types.ts\<close> declares: every field a string, or missing.
  \<^verbatim>\<open>CURRENT_TIMESTAMP\<close> and the clock of the token library are the same clock, read in
  seconds.
\<close>

type_synonym sql_text = "string option"
type_synonym timestamp = nat

text \<open>
  The twenty-one columns of \<^verbatim>\<open>auth_records\<close> that \<^verbatim>\<open>POST /api/records\<close> and
  \<^verbatim>\<open>PUT /api/records/:id\<close> take from the request body, in the order of the source. The
  same record, at another type of \<^verbatim>\<open>checklist\<close>, is the request body before the handler
  has applied \<^verbatim>\<open>JSON.stringify\<close> to that field.
\<close>

record 'c fields =
  visit_type :: sql_text
  insurance :: sql_text
  insurance_id :: sql_text
  patient_name :: sql_text
  dob :: sql_text
  account_number :: sql_text
  p_r :: sql_text
  doctor_name :: sql_text
  procedure_codes :: sql_text
  dx_codes :: sql_text
  status :: sql_text
  request_initiated :: sql_text
  insurance_portal_name :: sql_text
  rep_name :: sql_text
  phone_number :: sql_text
  auth_case_number :: sql_text
  ref_number :: sql_text
  date_worked :: sql_text
  call_time_spent :: sql_text
  checklist :: 'c
  notes' :: sql_text

text \<open>
  A row of \<^verbatim>\<open>auth_records\<close>: the editable columns and the identity and lifecycle columns
  \<^verbatim>\<open>id\<close>, \<^verbatim>\<open>is_deleted\<close>, \<^verbatim>\<open>user_id\<close>, \<^verbatim>\<open>created_at\<close>, \<^verbatim>\<open>updated_at\<close>. (\<open>r_id\<close> and \<open>u_id\<close>
  are the \<^verbatim>\<open>id\<close> columns of the two tables; \<open>id\<close> is taken in HOL.)
\<close>

record auth_record =
  r_id :: int
  cols :: "sql_text fields"
  is_deleted :: int
  user_id :: "int option"
  created_at :: timestamp
  updated_at :: timestamp

text \<open>
  \<^verbatim>\<open>bcryptjs\<close> is idealised: a hash remembers the password it was made from and nothing
  else compares equal to it. Salts and the cost factor are left out.
\<close>

datatype bcrypt_hash = Bcrypt string

definition hashSync :: "string \<Rightarrow> bcrypt_hash" where
  "hashSync plaintext = Bcrypt plaintext"

definition compareSync :: "string \<Rightarrow> bcrypt_hash \<Rightarrow> bool" where
  "compareSync plaintext h = (h = Bcrypt plaintext)"

record user =
  u_id :: int
  username :: string
  password :: bcrypt_hash
  role :: sql_text

text \<open>
  \<^verbatim>\<open>users\<close> and \<^verbatim>\<open>auth_records\<close> are \<^verbatim>\<open>INTEGER PRIMARY KEY AUTOINCREMENT\<close>: SQLite keeps, per
  table, the largest row id it ever handed out (\<^verbatim>\<open>sqlite_sequence\<close>), and a new row gets
  one more than the larger of that and the largest id in the table. A row of \<^verbatim>\<open>settings\<close>
  is a key and a value, both \<^verbatim>\<open>TEXT\<close>.
\<close>

record db =
  users :: "user list"
  users_seq :: int
  auth_records :: "auth_record list"
  auth_records_seq :: int
  settings :: "(sql_text \<times> sql_text) list"

definition next_rowid :: "int \<Rightarrow> int list \<Rightarrow> int" where
  "next_rowid seq ids = fold max ids seq + 1"

text \<open>
  \<^verbatim>\<open>UPDATE t SET ... WHERE p\<close> returns the number of rows it changed
  (\<^verbatim>\<open>result.changes\<close>) with the table; \<^verbatim>\<open>DELETE FROM t WHERE p\<close> keeps the other rows.
\<close>

definition sql_update :: "('r \<Rightarrow> bool) \<Rightarrow> ('r \<Rightarrow> 'r) \<Rightarrow> 'r list \<Rightarrow> nat \<times> 'r list" where
  "sql_update p f rows = (length (filter p rows), map (\<lambda>r. if p r then f r else r) rows)"

definition sql_delete :: "('r \<Rightarrow> bool) \<Rightarrow> 'r list \<Rightarrow> 'r list" where
  "sql_delete p rows = filter (\<lambda>r. \<not> p r) rows"

text \<open>
  \<^verbatim>\<open>SUM(CASE WHEN p THEN 1 ELSE 0 END)\<close> over the selected rows: SQL's \<^verbatim>\<open>SUM\<close> of no row
  at all is \<^verbatim>\<open>NULL\<close>, while \<^verbatim>\<open>COUNT(*)\<close> is then 0.
\<close>

definition sql_sum_case :: "('r \<Rightarrow> bool) \<Rightarrow> 'r list \<Rightarrow> int option" where
  "sql_sum_case p rows = (if rows = [] then None else Some (int (length (filter p rows))))"

definition sql_count :: "'r list \<Rightarrow> int" where
  "sql_count rows = int (length rows)"

section \<open>Session tokens\<close>

text \<open>
  \<^verbatim>\<open>jsonwebtoken\<close> is modelled by what it guarantees: a token is either not a token at
  all, or a payload with its issue and expiry times, signed with some key.
  \<^verbatim>\<open>jwt.verify\<close> accepts it when the key is the server's and the expiry time has not
  been reached. The payload is what \<^verbatim>\<open>POST /api/auth/login\<close> signs: the user's id and
  name, and no role.
\<close>

record payload =
  tok_id :: int
  tok_username :: string

datatype token = Malformed string | Jwt string payload timestamp timestamp

definition jwt_sign :: "payload \<Rightarrow> string \<Rightarrow> timestamp \<Rightarrow> token" where
  "jwt_sign pl secret now = Jwt secret pl now (now + 24 * 60 * 60)"

fun jwt_verify :: "token \<Rightarrow> string \<Rightarrow> timestamp \<Rightarrow> payload option" where
  "jwt_verify (Malformed s) secret now = None"
| "jwt_verify (Jwt k pl iat ex) secret now = (if k = secret \<and> now < ex then Some pl else None)"

text \<open>
  What the server reads from its environment and from SQLite's and JavaScript's
  libraries: the signing secret, \<^verbatim>\<open>JSON.stringify\<close> on a checklist, and SQLite's date
  functions (\<^verbatim>\<open>date('now')\<close>, \<^verbatim>\<open>date(X)\<close> on a text, which is \<^verbatim>\<open>NULL\<close> for a text that
  is no date, and \<^verbatim>\<open>date\<close> and \<^verbatim>\<open>strftime\<close> with \<^verbatim>\<open>'localtime'\<close> on a timestamp).
\<close>

record 'j config =
  SESSION_SECRET :: string
  JSON_stringify :: "'j \<Rightarrow> string"
  date_utc :: "timestamp \<Rightarrow> string"
  date_of_text :: "string \<Rightarrow> string option"
  date_local :: "timestamp \<Rightarrow> string"
  week_local :: "timestamp \<Rightarrow> string"
  month_local :: "timestamp \<Rightarrow> string"
  year_local :: "timestamp \<Rightarrow> string"

section \<open>Requests and responses\<close>

text \<open>
  One constructor per route under \<^verbatim>\<open>/api\<close> (what is left serves the pages of the
  client). An \<^verbatim>\<open>:id\<close> path
  parameter is the integer it denotes (SQLite compares it with the integer column after
  converting it; a parameter that is no number matches no row, as an absent id does).
  The arguments of the user routes are \<^verbatim>\<open>username\<close>, \<^verbatim>\<open>password\<close>, \<^verbatim>\<open>role\<close> of the body,
  those of \<open>ChangePassword\<close> are \<^verbatim>\<open>currentPassword\<close> and \<^verbatim>\<open>newPassword\<close>, those of
  \<open>SetSetting\<close> are \<^verbatim>\<open>key\<close> and \<^verbatim>\<open>value\<close>.
\<close>

datatype 'j request =
    Login sql_text sql_text
  | Logout
  | Me
  | ListUsers
  | UserStats
  | CreateUser sql_text sql_text sql_text
  | PatchUser int sql_text sql_text sql_text
  | DeleteUser int
  | ChangePassword sql_text sql_text
  | ListRecords
  | ListDeleted
  | RecordStats
  | CreateRecord "'j option fields"
  | UpdateRecord int "'j option fields"
  | SoftDelete int
  | Restore int
  | Purge int
  | GetSettings
  | SetSetting sql_text sql_text

type_synonym user_view = "int \<times> string \<times> sql_text"

record employee_stats =
  es_user :: user_view
  today :: int
  this_week :: int
  this_month :: int
  ytd :: int

record record_stats =
  total :: int
  pending :: "int option"
  approved :: "int option"
  denied :: "int option"
  not_required :: "int option"
  follow_up :: "int option"
  cancelled :: "int option"
  not_covered :: "int option"
  submitted_today :: "int option"

datatype body =
    Error string
  | Success
  | LoginOk user_view
  | MeBody "user_view option"
  | UserList "user_view list"
  | EmployeeStats "employee_stats list"
  | RecordList "auth_record list"
  | StatsBody record_stats
  | Created int
  | SettingsMap "string \<Rightarrow> sql_text option"
  | Uncaught

record response =
  http_status :: nat
  body :: body
  set_cookie :: "token option"

definition reply :: "nat \<Rightarrow> body \<Rightarrow> response" where
  "reply code b = \<lparr>http_status = code, body = b, set_cookie = None\<rparr>"

section \<open>Middleware\<close>

text \<open>
  \<^verbatim>\<open>authenticateToken\<close>: no cookie, or an empty one (\<^verbatim>\<open>!token\<close> holds of the empty string,
  which is \<open>Malformed []\<close> here), is answered 401; a cookie that \<^verbatim>\<open>jwt.verify\<close> rejects is
  answered 403; otherwise the payload becomes \<^verbatim>\<open>req.user\<close> and the next handler runs. The
  cookie is \<open>None\<close> when the request has none.
\<close>

definition authenticateToken ::
  "'j config \<Rightarrow> timestamp \<Rightarrow> token option \<Rightarrow> db \<Rightarrow> (payload \<Rightarrow> response \<times> db) \<Rightarrow> response \<times> db" where
  "authenticateToken cfg now cookie d nxt =
     (case cookie of
        None \<Rightarrow> (reply 401 (Error ''Unauthorized''), d)
      | Some tok \<Rightarrow>
          if tok = Malformed [] then (reply 401 (Error ''Unauthorized''), d)
          else
            (case jwt_verify tok (SESSION_SECRET cfg) now of
               None \<Rightarrow> (reply 403 (Error ''Forbidden''), d)
             | Some req_user \<Rightarrow> nxt req_user))"

text \<open>
  \<^verbatim>\<open>isAdmin\<close>: \<^verbatim>\<open>SELECT role FROM users WHERE id = ?\<close> with the id of the payload; the next
  handler runs when a row is found and its role is \<^verbatim>\<open>'admin'\<close>.
\<close>

definition select_user :: "db \<Rightarrow> int \<Rightarrow> user option" where
  "select_user d i = find (\<lambda>u. u_id u = i) (users d)"

definition isAdmin :: "db \<Rightarrow> payload \<Rightarrow> response \<times> db \<Rightarrow> response \<times> db" where
  "isAdmin d req_user nxt =
     (case select_user d (tok_id req_user) of
        None \<Rightarrow> (reply 403 (Error ''Admin access required''), d)
      | Some u \<Rightarrow>
          if role u = Some ''admin'' then nxt
          else (reply 403 (Error ''Admin access required''), d))"

section \<open>Login and user management\<close>

definition view :: "user \<Rightarrow> user_view" where
  "view u = (u_id u, username u, role u)"

text \<open>
  \<^verbatim>\<open>POST /api/auth/login\<close>. A missing \<^verbatim>\<open>username\<close> is bound as \<^verbatim>\<open>NULL\<close> and selects no
  row; \<^verbatim>\<open>bcrypt.compareSync\<close> throws on a missing password, which nothing catches.
\<close>

definition post_auth_login ::
  "'j config \<Rightarrow> timestamp \<Rightarrow> sql_text \<Rightarrow> sql_text \<Rightarrow> db \<Rightarrow> response \<times> db" where
  "post_auth_login cfg now uname pw d =
     (case (case uname of None \<Rightarrow> None | Some n \<Rightarrow> find (\<lambda>u. username u = n) (users d)) of
        None \<Rightarrow> (reply 401 (Error ''Invalid credentials''), d)
      | Some u \<Rightarrow>
          (case pw of
             None \<Rightarrow> (reply 500 Uncaught, d)
           | Some p \<Rightarrow>
               if compareSync p (password u) then
                 (\<lparr>http_status = 200, body = LoginOk (view u),
                   set_cookie = Some (jwt_sign \<lparr>tok_id = u_id u, tok_username = username u\<rparr>
                                        (SESSION_SECRET cfg) now)\<rparr>, d)
               else (reply 401 (Error ''Invalid credentials''), d)))"

text \<open>\<^verbatim>\<open>POST /api/auth/logout\<close> overwrites the cookie with the empty string.\<close>

definition post_auth_logout :: "db \<Rightarrow> response \<times> db" where
  "post_auth_logout d = (\<lparr>http_status = 200, body = Success, set_cookie = Some (Malformed [])\<rparr>, d)"

text \<open>
  \<^verbatim>\<open>GET /api/auth/me\<close> and \<^verbatim>\<open>GET /api/users\<close> select \<^verbatim>\<open>id, username, role\<close>: of the user of
  the token (the body has no user when there is none), and of all users.
\<close>

definition get_auth_me :: "payload \<Rightarrow> db \<Rightarrow> response \<times> db" where
  "get_auth_me req_user d = (reply 200 (MeBody (map_option view (select_user d (tok_id req_user)))), d)"

definition get_users :: "db \<Rightarrow> response \<times> db" where
  "get_users d = (reply 200 (UserList (map view (users d))), d)"

text \<open>
  \<^verbatim>\<open>GET /api/users/stats\<close>: one row per user, in the order of role and name, counting the
  user's active records created on the server's local day, week, month and year.
\<close>

definition count_rows :: "('r \<Rightarrow> bool) \<Rightarrow> 'r list \<Rightarrow> int" where
  "count_rows p rows = int (length (filter p rows))"

definition employee_row :: "'j config \<Rightarrow> timestamp \<Rightarrow> auth_record list \<Rightarrow> user \<Rightarrow> employee_stats" where
  "employee_row cfg now recs u =
     (let joined = filter (\<lambda>r. user_id r = Some (u_id u) \<and> is_deleted r = 0) recs in
      \<lparr>es_user = view u,
       today = count_rows (\<lambda>r. date_local cfg (created_at r) = date_local cfg now) joined,
       this_week = count_rows (\<lambda>r. week_local cfg (created_at r) = week_local cfg now
                                  \<and> year_local cfg (created_at r) = year_local cfg now) joined,
       this_month = count_rows (\<lambda>r. month_local cfg (created_at r) = month_local cfg now
                                   \<and> year_local cfg (created_at r) = year_local cfg now) joined,
       ytd = count_rows (\<lambda>r. year_local cfg (created_at r) = year_local cfg now) joined\<rparr>)"

definition get_users_stats :: "'j config \<Rightarrow> timestamp \<Rightarrow> db \<Rightarrow> response \<times> db" where
  "get_users_stats cfg now d =
     (reply 200 (EmployeeStats (map (employee_row cfg now (auth_records d))
                                  (sort_key (\<lambda>u. (role u, username u)) (users d)))), d)"

text \<open>
  \<^verbatim>\<open>POST /api/users\<close>. \<^verbatim>\<open>bcrypt.hashSync\<close> throws on a missing password and the insert
  fails on a missing (\<^verbatim>\<open>NOT NULL\<close>) or taken (\<^verbatim>\<open>UNIQUE\<close>) name; the handler catches all
  three and answers 400. \<^verbatim>\<open>role || 'employee'\<close> replaces a missing or empty role.
\<close>

definition post_users :: "sql_text \<Rightarrow> sql_text \<Rightarrow> sql_text \<Rightarrow> db \<Rightarrow> response \<times> db" where
  "post_users uname pw rl d =
     (case pw of
        None \<Rightarrow> (reply 400 (Error ''Username already exists''), d)
      | Some p \<Rightarrow>
          (case uname of
             None \<Rightarrow> (reply 400 (Error ''Username already exists''), d)
           | Some n \<Rightarrow>
               if list_ex (\<lambda>u. username u = n) (users d)
               then (reply 400 (Error ''Username already exists''), d)
               else
                 (let new_id = next_rowid (users_seq d) (map u_id (users d)) in
                  (reply 200 Success,
                   d\<lparr>users := users d @
                        [\<lparr>u_id = new_id, username = n, password = hashSync p,
                          role = (case rl of None \<Rightarrow> Some ''employee''
                                  | Some r \<Rightarrow> if r = [] then Some ''employee'' else Some r)\<rparr>],
                      users_seq := new_id\<rparr>))))"

text \<open>
  \<^verbatim>\<open>PATCH /api/users/:id\<close>. The password is rewritten only when the body has a non-empty
  one. When no row has the id the statement changes nothing and succeeds; otherwise a
  missing name, or a name another row has, makes it fail, and the handler answers 400.
\<close>

definition patch_users :: "int \<Rightarrow> sql_text \<Rightarrow> sql_text \<Rightarrow> sql_text \<Rightarrow> db \<Rightarrow> response \<times> db" where
  "patch_users i uname pw rl d =
     (if \<not> list_ex (\<lambda>u. u_id u = i) (users d) then (reply 200 Success, d)
      else
        (case uname of
           None \<Rightarrow> (reply 400 (Error ''Username already exists or update failed''), d)
         | Some n \<Rightarrow>
             if list_ex (\<lambda>u. u_id u \<noteq> i \<and> username u = n) (users d)
             then (reply 400 (Error ''Username already exists or update failed''), d)
             else
               (reply 200 Success,
                d\<lparr>users := snd (sql_update (\<lambda>u. u_id u = i)
                     (\<lambda>u. case pw of
                             None \<Rightarrow> u\<lparr>username := n, role := rl\<rparr>
                           | Some p \<Rightarrow>
                               if p = [] then u\<lparr>username := n, role := rl\<rparr>
                               else u\<lparr>username := n, password := hashSync p, role := rl\<rparr>)
                     (users d))\<rparr>)))"

text \<open>
  \<^verbatim>\<open>DELETE /api/users/:id\<close> refuses to delete the user named \<^verbatim>\<open>admin\<close> and otherwise runs
  \<^verbatim>\<open>DELETE FROM users WHERE id = ?\<close>.
\<close>

definition delete_users :: "int \<Rightarrow> db \<Rightarrow> response \<times> db" where
  "delete_users i d =
     (case select_user d i of
        None \<Rightarrow> (reply 200 Success, d\<lparr>users := sql_delete (\<lambda>u. u_id u = i) (users d)\<rparr>)
      | Some u \<Rightarrow>
          if username u = ''admin'' then (reply 400 (Error ''Cannot delete primary admin''), d)
          else (reply 200 Success, d\<lparr>users := sql_delete (\<lambda>u. u_id u = i) (users d)\<rparr>))"

text \<open>
  \<^verbatim>\<open>POST /api/auth/change-password\<close>. \<^verbatim>\<open>bcrypt\<close> throws on a missing current or new
  password, which nothing catches here.
\<close>

definition post_auth_change_password :: "payload \<Rightarrow> sql_text \<Rightarrow> sql_text \<Rightarrow> db \<Rightarrow> response \<times> db" where
  "post_auth_change_password req_user currentPassword newPassword d =
     (case select_user d (tok_id req_user) of
        None \<Rightarrow> (reply 400 (Error ''Invalid current password''), d)
      | Some u \<Rightarrow>
          (case currentPassword of
             None \<Rightarrow> (reply 500 Uncaught, d)
           | Some c \<Rightarrow>
               if compareSync c (password u) then
                 (case newPassword of
                    None \<Rightarrow> (reply 500 Uncaught, d)
                  | Some n \<Rightarrow>
                      (reply 200 Success,
                       d\<lparr>users := snd (sql_update (\<lambda>v. u_id v = u_id u)
                            (\<lambda>v. v\<lparr>password := hashSync n\<rparr>) (users d))\<rparr>))
               else (reply 400 (Error ''Invalid current password''), d)))"

section \<open>Record routes\<close>

text \<open>
  \<^verbatim>\<open>GET /api/records\<close> and \<^verbatim>\<open>GET /api/records/deleted\<close>: the rows with \<^verbatim>\<open>is_deleted = 0\<close>
  by \<^verbatim>\<open>date_worked\<close>, and those with \<^verbatim>\<open>is_deleted = 1\<close> by \<^verbatim>\<open>updated_at\<close>, both descending
  (\<^verbatim>\<open>NULL\<close> sorts below every text, and texts compare byte by byte). SQL leaves the
  order of rows with equal keys open; the model fixes one.
\<close>

definition list_active :: "db \<Rightarrow> auth_record list" where
  "list_active d = rev (sort_key (\<lambda>r. date_worked (cols r)) (filter (\<lambda>r. is_deleted r = 0) (auth_records d)))"

definition list_trashed :: "db \<Rightarrow> auth_record list" where
  "list_trashed d = rev (sort_key updated_at (filter (\<lambda>r. is_deleted r = 1) (auth_records d)))"

definition get_records :: "db \<Rightarrow> response \<times> db" where
  "get_records d = (reply 200 (RecordList (list_active d)), d)"

definition get_records_deleted :: "db \<Rightarrow> response \<times> db" where
  "get_records_deleted d = (reply 200 (RecordList (list_trashed d)), d)"

text \<open>
  \<^verbatim>\<open>GET /api/records/stats\<close>: \<^verbatim>\<open>COUNT(*)\<close> and one \<^verbatim>\<open>SUM(CASE ...)\<close> per status over the rows
  with \<^verbatim>\<open>is_deleted = 0\<close>. A \<^verbatim>\<open>NULL\<close> status, or a \<^verbatim>\<open>NULL\<close> date, makes the comparison
  \<^verbatim>\<open>NULL\<close>, and the \<^verbatim>\<open>CASE\<close> takes its \<^verbatim>\<open>ELSE\<close>.
\<close>

definition recordStats :: "'j config \<Rightarrow> timestamp \<Rightarrow> db \<Rightarrow> record_stats" where
  "recordStats cfg now d =
     (let rows = filter (\<lambda>r. is_deleted r = 0) (auth_records d);
          with_status = (\<lambda>s. sql_sum_case (\<lambda>r. status (cols r) = Some s \<and> is_deleted r = 0) rows)
      in \<lparr>total = sql_count rows,
          pending = with_status ''Pending'',
          approved = with_status ''Approved'',
          denied = with_status ''Denied'',
          not_required = with_status ''Not Required'',
          follow_up = with_status ''Follow Up'',
          cancelled = with_status ''Cancelled'',
          not_covered = with_status ''Not Covered'',
          submitted_today =
            sql_sum_case
              (\<lambda>r. (case request_initiated (cols r) of
                       None \<Rightarrow> False
                     | Some x \<Rightarrow> date_of_text cfg x = Some (date_utc cfg now))
                    \<and> is_deleted r = 0) rows\<rparr>)"

definition get_records_stats :: "'j config \<Rightarrow> timestamp \<Rightarrow> db \<Rightarrow> response \<times> db" where
  "get_records_stats cfg now d = (reply 200 (StatsBody (recordStats cfg now d)), d)"

text \<open>
  The values \<^verbatim>\<open>POST /api/records\<close> and \<^verbatim>\<open>PUT /api/records/:id\<close> bind, in the order of the
  statement: each field of the body as it is, the checklist through \<^verbatim>\<open>JSON.stringify\<close>
  (which leaves a missing checklist missing).
\<close>

definition bind_fields :: "'j config \<Rightarrow> 'j option fields \<Rightarrow> sql_text fields" where
  "bind_fields cfg b =
     \<lparr>visit_type = visit_type b, insurance = insurance b, insurance_id = insurance_id b,
      patient_name = patient_name b, dob = dob b, account_number = account_number b,
      p_r = p_r b, doctor_name = doctor_name b, procedure_codes = procedure_codes b,
      dx_codes = dx_codes b, status = status b, request_initiated = request_initiated b,
      insurance_portal_name = insurance_portal_name b, rep_name = rep_name b,
      phone_number = phone_number b, auth_case_number = auth_case_number b,
      ref_number = ref_number b, date_worked = date_worked b,
      call_time_spent = call_time_spent b,
      checklist = map_option (JSON_stringify cfg) (checklist b), notes' = notes' b\<rparr>"

text \<open>
  \<^verbatim>\<open>POST /api/records\<close>: the \<^verbatim>\<open>INSERT\<close> names the twenty-one body columns and \<^verbatim>\<open>user_id\<close>,
  so these get the bound values, also when a value is \<^verbatim>\<open>NULL\<close>; the columns it does not
  name (\<^verbatim>\<open>is_deleted\<close>, \<^verbatim>\<open>created_at\<close>, \<^verbatim>\<open>updated_at\<close>) get their schema defaults, 0 and
  \<^verbatim>\<open>CURRENT_TIMESTAMP\<close>.
\<close>

definition post_records ::
  "'j config \<Rightarrow> timestamp \<Rightarrow> payload \<Rightarrow> 'j option fields \<Rightarrow> db \<Rightarrow> response \<times> db" where
  "post_records cfg now req_user b d =
     (let new_id = next_rowid (auth_records_seq d) (map r_id (auth_records d)) in
      (reply 200 (Created new_id),
       d\<lparr>auth_records := auth_records d @
            [\<lparr>r_id = new_id, cols = bind_fields cfg b, is_deleted = 0,
              user_id = Some (tok_id req_user), created_at = now, updated_at = now\<rparr>],
          auth_records_seq := new_id\<rparr>))"

text \<open>
  \<^verbatim>\<open>PUT /api/records/:id\<close>: \<^verbatim>\<open>UPDATE auth_records SET\<close> the twenty-one columns to the bound
  values and \<^verbatim>\<open>updated_at = CURRENT_TIMESTAMP WHERE id = ?\<close>.
\<close>

definition put_records ::
  "'j config \<Rightarrow> timestamp \<Rightarrow> int \<Rightarrow> 'j option fields \<Rightarrow> db \<Rightarrow> response \<times> db" where
  "put_records cfg now i b d =
     (reply 200 Success,
      d\<lparr>auth_records := snd (sql_update (\<lambda>r. r_id r = i)
           (\<lambda>r. r\<lparr>cols := bind_fields cfg b, updated_at := now\<rparr>) (auth_records d))\<rparr>)"

text \<open>
  \<^verbatim>\<open>DELETE /api/records/:id\<close> and \<^verbatim>\<open>POST /api/records/:id/restore\<close>:
  \<^verbatim>\<open>UPDATE auth_records SET is_deleted = 1\<close> (and \<^verbatim>\<open>0\<close>)\<^verbatim>\<open>, updated_at = CURRENT_TIMESTAMP
  WHERE id = ?\<close>. The handlers answer \<^verbatim>\<open>{success: true}\<close> whatever the number of rows changed.
\<close>

definition delete_records :: "timestamp \<Rightarrow> int \<Rightarrow> db \<Rightarrow> response \<times> db" where
  "delete_records now i d =
     (reply 200 Success,
      d\<lparr>auth_records := snd (sql_update (\<lambda>r. r_id r = i)
           (\<lambda>r. r\<lparr>is_deleted := 1, updated_at := now\<rparr>) (auth_records d))\<rparr>)"

definition post_records_restore :: "timestamp \<Rightarrow> int \<Rightarrow> db \<Rightarrow> response \<times> db" where
  "post_records_restore now i d =
     (reply 200 Success,
      d\<lparr>auth_records := snd (sql_update (\<lambda>r. r_id r = i)
           (\<lambda>r. r\<lparr>is_deleted := 0, updated_at := now\<rparr>) (auth_records d))\<rparr>)"

text \<open>
  \<^verbatim>\<open>DELETE /api/records/:id/permanent\<close>:
  \<^verbatim>\<open>DELETE FROM auth_records WHERE id = ? AND is_deleted = 1\<close>.
\<close>

definition delete_records_permanent :: "int \<Rightarrow> db \<Rightarrow> response \<times> db" where
  "delete_records_permanent i d =
     (reply 200 Success,
      d\<lparr>auth_records := sql_delete (\<lambda>r. r_id r = i \<and> is_deleted r = 1) (auth_records d)\<rparr>)"

section \<open>Settings\<close>

text \<open>
  \<^verbatim>\<open>GET /api/settings\<close> folds the rows into an object, a later row overwriting an earlier
  one with the same property name (a \<^verbatim>\<open>NULL\<close> key becomes the property \<^verbatim>\<open>null\<close>).
  \<^verbatim>\<open>POST /api/settings\<close> runs \<^verbatim>\<open>INSERT OR REPLACE\<close>: the row with the same key, if any, is
  dropped and the new row is added (\<^verbatim>\<open>NULL\<close> keys never clash).
\<close>

definition get_settings :: "db \<Rightarrow> response \<times> db" where
  "get_settings d =
     (reply 200 (SettingsMap
        (fold (\<lambda>(k, v) acc. acc((case k of None \<Rightarrow> ''null'' | Some n \<Rightarrow> n) \<mapsto> v))
           (settings d) Map.empty)), d)"

definition post_settings :: "sql_text \<Rightarrow> sql_text \<Rightarrow> db \<Rightarrow> response \<times> db" where
  "post_settings k v d =
     (reply 200 Success,
      d\<lparr>settings := filter (\<lambda>(k', v'). k = None \<or> k' \<noteq> k) (settings d) @ [(k, v)]\<rparr>)"

section \<open>The routes\<close>

text \<open>
  Each route with the middleware the source registers before its handler. The
  arguments are the configuration, the clock, the cookie of the request, the request
  and the store.
\<close>

fun handle ::
  "'j config \<Rightarrow> timestamp \<Rightarrow> token option \<Rightarrow> 'j request \<Rightarrow> db \<Rightarrow> response \<times> db" where
  "handle cfg now cookie (Login uname pw) d = post_auth_login cfg now uname pw d"
| "handle cfg now cookie Logout d = post_auth_logout d"
| "handle cfg now cookie Me d =
     authenticateToken cfg now cookie d (\<lambda>req_user. get_auth_me req_user d)"
| "handle cfg now cookie ListUsers d =
     authenticateToken cfg now cookie d (\<lambda>req_user. isAdmin d req_user (get_users d))"
| "handle cfg now cookie UserStats d =
     authenticateToken cfg now cookie d (\<lambda>req_user. isAdmin d req_user (get_users_stats cfg now d))"
| "handle cfg now cookie (CreateUser uname pw rl) d =
     authenticateToken cfg now cookie d (\<lambda>req_user. isAdmin d req_user (post_users uname pw rl d))"
| "handle cfg now cookie (PatchUser i uname pw rl) d =
     authenticateToken cfg now cookie d (\<lambda>req_user. isAdmin d req_user (patch_users i uname pw rl d))"
| "handle cfg now cookie (DeleteUser i) d =
     authenticateToken cfg now cookie d (\<lambda>req_user. isAdmin d req_user (delete_users i d))"
| "handle cfg now cookie (ChangePassword currentPassword newPassword) d =
     authenticateToken cfg now cookie d
       (\<lambda>req_user. post_auth_change_password req_user currentPassword newPassword d)"
| "handle cfg now cookie ListRecords d =
     authenticateToken cfg now cookie d (\<lambda>req_user. get_records d)"
| "handle cfg now cookie ListDeleted d =
     authenticateToken cfg now cookie d (\<lambda>req_user. get_records_deleted d)"
| "handle cfg now cookie RecordStats d =
     authenticateToken cfg now cookie d (\<lambda>req_user. get_records_stats cfg now d)"
| "handle cfg now cookie (CreateRecord b) d =
     authenticateToken cfg now cookie d (\<lambda>req_user. post_records cfg now req_user b d)"
| "handle cfg now cookie (UpdateRecord i b) d =
     authenticateToken cfg now cookie d (\<lambda>req_user. put_records cfg now i b d)"
| "handle cfg now cookie (SoftDelete i) d =
     authenticateToken cfg now cookie d (\<lambda>req_user. isAdmin d req_user (delete_records now i d))"
| "handle cfg now cookie (Restore i) d =
     authenticateToken cfg now cookie d (\<lambda>req_user. post_records_restore now i d)"
| "handle cfg now cookie (Purge i) d =
     authenticateToken cfg now cookie d (\<lambda>req_user. isAdmin d req_user (delete_records_permanent i d))"
| "handle cfg now cookie GetSettings d =
     authenticateToken cfg now cookie d (\<lambda>req_user. get_settings d)"
| "handle cfg now cookie (SetSetting k v) d =
     authenticateToken cfg now cookie d (\<lambda>req_user. post_settings k v d)"

section \<open>Notions used in the statements\<close>

text \<open>The role the user table holds for an id: \<open>None\<close> when no user has the id.\<close>

definition stored_role :: "db \<Rightarrow> int \<Rightarrow> sql_text option" where
  "stored_role d i = map_option role (select_user d i)"

text \<open>
  The routes registered with \<^verbatim>\<open>isAdmin\<close>, and those registered with \<^verbatim>\<open>authenticateToken\<close>
  (all but login and logout).
\<close>

fun admin_gated :: "'j request \<Rightarrow> bool" where
  "admin_gated ListUsers = True"
| "admin_gated UserStats = True"
| "admin_gated (CreateUser uname pw rl) = True"
| "admin_gated (PatchUser i uname pw rl) = True"
| "admin_gated (DeleteUser i) = True"
| "admin_gated (SoftDelete i) = True"
| "admin_gated (Purge i) = True"
| "admin_gated req = False"

fun needs_session :: "'j request \<Rightarrow> bool" where
  "needs_session (Login uname pw) = False"
| "needs_session Logout = False"
| "needs_session req = True"

text \<open>
  The seven statuses of \<^verbatim>\<open>AuthStatus\<close> in \<^verbatim>\<open>src/types.ts\<close>, the sum of the seven status
  fields of a statistics row (a \<^verbatim>\<open>NULL\<close> field counting as 0), and the active rows whose
  status is \<^verbatim>\<open>NULL\<close> or none of the seven.
\<close>

definition known_statuses :: "string list" where
  "known_statuses = [''Pending'', ''Approved'', ''Denied'', ''Not Required'', ''Follow Up'',
                     ''Cancelled'', ''Not Covered'']"

definition null_as_zero :: "int option \<Rightarrow> int" where
  "null_as_zero v = (case v of None \<Rightarrow> 0 | Some n \<Rightarrow> n)"

definition status_sum :: "record_stats \<Rightarrow> int" where
  "status_sum st = null_as_zero (pending st) + null_as_zero (approved st) + null_as_zero (denied st)
     + null_as_zero (not_required st) + null_as_zero (follow_up st) + null_as_zero (cancelled st)
     + null_as_zero (not_covered st)"

definition other_status_rows :: "db \<Rightarrow> auth_record list" where
  "other_status_rows d =
     filter (\<lambda>r. is_deleted r = 0 \<and> status (cols r) \<notin> set (map Some known_statuses)) (auth_records d)"

section \<open>A small installation\<close>

text \<open>
  The concrete inputs of the examples below: the default signing secret, checklists
  with the single value \<^verbatim>\<open>{}\<close>, a server on UTC during the first day of 1970, the seeded
  administrator and one employee (and a second administrator for one scenario), and
  the tokens a login at time 0 issues to them.
\<close>

definition ex_cfg :: "unit config" where
  "ex_cfg = \<lparr>SESSION_SECRET = ''default-secret-key'', JSON_stringify = (\<lambda>u. ''{}''),
             date_utc = (\<lambda>t. ''1970-01-01''),
             date_of_text = (\<lambda>s. if s = ''1970-01-01'' then Some s else None),
             date_local = (\<lambda>t. ''1970-01-01''), week_local = (\<lambda>t. ''00''),
             month_local = (\<lambda>t. ''01''), year_local = (\<lambda>t. ''1970'')\<rparr>"

definition ex_admin :: user where
  "ex_admin = \<lparr>u_id = 1, username = ''admin'', password = hashSync ''admin-password'',
               role = Some ''admin''\<rparr>"

definition ex_employee :: user where
  "ex_employee = \<lparr>u_id = 2, username = ''erin'', password = hashSync ''pw'',
                  role = Some ''employee''\<rparr>"

definition ex_token :: "user \<Rightarrow> token" where
  "ex_token u = jwt_sign \<lparr>tok_id = u_id u, tok_username = username u\<rparr> ''default-secret-key'' 0"

definition ex_body :: "sql_text \<Rightarrow> unit option fields" where
  "ex_body st =
     \<lparr>visit_type = Some ''Office'', insurance = Some ''Acme'', insurance_id = Some ''A1'',
      patient_name = Some ''P'', dob = Some ''1980-02-03'', account_number = Some ''7'',
      p_r = Some ''P'', doctor_name = Some ''Dr D'', procedure_codes = Some ''99213'',
      dx_codes = Some ''J10'', status = st, request_initiated = Some ''1970-01-01'',
      insurance_portal_name = Some [], rep_name = Some [], phone_number = Some [],
      auth_case_number = Some [], ref_number = Some [], date_worked = Some ''1970-01-01'',
      call_time_spent = Some [], checklist = Some (), notes' = Some []\<rparr>"

definition ex_record :: "int \<Rightarrow> sql_text \<Rightarrow> int \<Rightarrow> timestamp \<Rightarrow> timestamp \<Rightarrow> auth_record" where
  "ex_record i st del created updated =
     \<lparr>r_id = i, cols = bind_fields ex_cfg (ex_body st), is_deleted = del, user_id = Some 2,
      created_at = created, updated_at = updated\<rparr>"

definition ex_db :: "int \<Rightarrow> auth_record list \<Rightarrow> db" where
  "ex_db seq recs = \<lparr>users = [ex_admin, ex_employee], users_seq = 2, auth_records = recs,
                     auth_records_seq = seq, settings = []\<rparr>"

definition ex_lead :: user where
  "ex_lead = \<lparr>u_id = 3, username = ''lee'', password = hashSync ''pw2'', role = Some ''admin''\<rparr>"

lemmas ex_defs = ex_cfg_def ex_admin_def ex_employee_def ex_lead_def ex_token_def ex_body_def ex_record_def
  ex_db_def

lemmas route_defs = authenticateToken_def isAdmin_def select_user_def jwt_sign_def reply_def
  delete_records_permanent_def delete_records_def post_records_restore_def put_records_def
  post_records_def sql_update_def sql_delete_def bind_fields_def next_rowid_def
  get_records_def get_records_deleted_def list_active_def list_trashed_def hashSync_def
  compareSync_def

section \<open>The middleware, step by step\<close>

lemma authenticateToken_valid:
  "jwt_verify tok (SESSION_SECRET cfg) now = Some pl \<Longrightarrow>
   authenticateToken cfg now (Some tok) d nxt = nxt pl"
  by (auto simp: authenticateToken_def)

lemma isAdmin_refuses:
  "stored_role d (tok_id pl) \<noteq> Some (Some ''admin'') \<Longrightarrow>
   isAdmin d pl nxt = (reply 403 (Error ''Admin access required''), d)"
  by (auto simp: isAdmin_def stored_role_def split: option.splits)

lemma isAdmin_passes:
  "stored_role d (tok_id pl) = Some (Some ''admin'') \<Longrightarrow> isAdmin d pl nxt = nxt"
  by (auto simp: isAdmin_def stored_role_def split: option.splits)

lemma gated_refused:
  assumes "jwt_verify tok (SESSION_SECRET cfg) now = Some pl"
      and "stored_role d (tok_id pl) \<noteq> Some (Some ''admin'')"
      and "admin_gated req"
  shows "handle cfg now (Some tok) req d = (reply 403 (Error ''Admin access required''), d)"
  using assms by (cases req) (simp_all add: authenticateToken_valid isAdmin_refuses)

lemma invalid_token_403:
  assumes "needs_session req" and "tok \<noteq> Malformed []"
      and "jwt_verify tok (SESSION_SECRET cfg) now = None"
  shows "handle cfg now (Some tok) req d = (reply 403 (Error ''Forbidden''), d)"
  using assms by (cases req) (simp_all add: authenticateToken_def)

lemma no_token_401:
  assumes "needs_session req"
  shows "handle cfg now None req d = (reply 401 (Error ''Unauthorized''), d)"
    and "handle cfg now (Some (Malformed [])) req d = (reply 401 (Error ''Unauthorized''), d)"
  using assms by (cases req; simp add: authenticateToken_def)+

lemma sql_update_snd: "snd (sql_update p f rows) = map (\<lambda>r. if p r then f r else r) rows"
  by (simp add: sql_update_def)

lemma map_update_frame:
  "(\<And>r. g (f r) = g r) \<Longrightarrow> map g (map (\<lambda>r. if p r then f r else r) rows) = map g rows"
  by (induction rows) auto

lemma set_list_active: "set (list_active d) = {r \<in> set (auth_records d). is_deleted r = 0}"
  by (auto simp: list_active_def)

lemma set_list_trashed: "set (list_trashed d) = {r \<in> set (auth_records d). is_deleted r = 1}"
  by (auto simp: list_trashed_def)

section \<open>The primary key of the records\<close>

text \<open>
  The ids of \<^verbatim>\<open>auth_records\<close> are a primary key. No request breaks that: a new row gets an
  id above every id in the table, an update keeps the ids and a delete only removes rows.
\<close>

lemma fold_max_ge: "(seq::int) \<le> fold max ids seq \<and> (\<forall>x \<in> set ids. x \<le> fold max ids seq)"
proof (induction ids arbitrary: seq)
  case Nil
  show ?case by simp
next
  case (Cons a ids)
  from Cons.IH[of "max a seq"] show ?case by auto
qed

lemma next_rowid_fresh: "next_rowid seq ids \<notin> set ids"
proof
  assume "next_rowid seq ids \<in> set ids"
  with fold_max_ge[of seq ids] have "next_rowid seq ids \<le> fold max ids seq" by blast
  then show False by (simp add: next_rowid_def)
qed

lemma snd_authenticateToken:
  "snd (authenticateToken cfg now cookie d nxt) = d
   \<or> (\<exists>pl. snd (authenticateToken cfg now cookie d nxt) = snd (nxt pl))"
  by (auto simp: authenticateToken_def split: option.splits)

lemma snd_isAdmin: "snd (isAdmin d pl nxt) = d \<or> snd (isAdmin d pl nxt) = snd nxt"
  by (auto simp: isAdmin_def split: option.splits)

lemma record_ids_of_update:
  "(\<And>r. r_id (f r) = r_id r) \<Longrightarrow> map r_id (snd (sql_update p f rows)) = map r_id rows"
  by (simp add: sql_update_snd map_update_frame)

lemma handlers_keep_record_ids:
  assumes "distinct (map r_id (auth_records d))"
  shows "distinct (map r_id (auth_records (snd (post_records cfg now pl b d))))"
    and "distinct (map r_id (auth_records (snd (put_records cfg now i b d))))"
    and "distinct (map r_id (auth_records (snd (delete_records now i d))))"
    and "distinct (map r_id (auth_records (snd (post_records_restore now i d))))"
    and "distinct (map r_id (auth_records (snd (delete_records_permanent i d))))"
    and "auth_records (snd (post_users uname pw rl d)) = auth_records d"
    and "auth_records (snd (patch_users j uname pw rl d)) = auth_records d"
    and "auth_records (snd (delete_users j d)) = auth_records d"
    and "auth_records (snd (post_auth_change_password pl currentPassword newPassword d)) = auth_records d"
    and "auth_records (snd (post_settings k v d)) = auth_records d"
proof -
  show "distinct (map r_id (auth_records (snd (post_records cfg now pl b d))))"
    using assms next_rowid_fresh[of "auth_records_seq d" "map r_id (auth_records d)"]
    by (simp add: post_records_def Let_def)
  show "distinct (map r_id (auth_records (snd (put_records cfg now i b d))))"
    using assms by (simp add: put_records_def record_ids_of_update)
  show "distinct (map r_id (auth_records (snd (delete_records now i d))))"
    using assms by (simp add: delete_records_def record_ids_of_update)
  show "distinct (map r_id (auth_records (snd (post_records_restore now i d))))"
    using assms by (simp add: post_records_restore_def record_ids_of_update)
  show "distinct (map r_id (auth_records (snd (delete_records_permanent i d))))"
    using assms by (simp add: delete_records_permanent_def sql_delete_def distinct_map_filter)
  show "auth_records (snd (post_users uname pw rl d)) = auth_records d"
    by (simp add: post_users_def Let_def split: option.splits)
  show "auth_records (snd (patch_users j uname pw rl d)) = auth_records d"
    by (simp add: patch_users_def split: option.splits)
  show "auth_records (snd (delete_users j d)) = auth_records d"
    by (simp add: delete_users_def split: option.splits)
  show "auth_records (snd (post_auth_change_password pl currentPassword newPassword d)) = auth_records d"
    by (simp add: post_auth_change_password_def split: option.splits)
  show "auth_records (snd (post_settings k v d)) = auth_records d"
    by (simp add: post_settings_def)
qed

lemma record_ids_stay_distinct:
  assumes "distinct (map r_id (auth_records d))"
  shows "distinct (map r_id (auth_records (snd (handle cfg now cookie req d))))"
proof -
  note h = handlers_keep_record_ids[OF assms]
  have gate: "distinct (map r_id (auth_records (snd (authenticateToken cfg now cookie d nxt))))"
    if "\<And>pl. distinct (map r_id (auth_records (snd (nxt pl))))" for nxt
    using snd_authenticateToken[of cfg now cookie d nxt] that assms by auto
  have admin: "distinct (map r_id (auth_records (snd (isAdmin d pl nxt))))"
    if "distinct (map r_id (auth_records (snd nxt)))" for pl nxt
    using snd_isAdmin[of d pl nxt] that assms by auto
  show ?thesis
  proof (cases req)
    case (Login uname pw)
    then show ?thesis using assms
      by (simp add: post_auth_login_def split: option.splits)
  qed (simp_all add: gate admin h assms get_auth_me_def get_users_def get_users_stats_def
        get_records_def get_records_deleted_def get_records_stats_def get_settings_def
        post_auth_logout_def)
qed

section \<open>Purge\<close>

lemma purge_set:
  "set (sql_delete (\<lambda>r. r_id r = i \<and> is_deleted r = 1) rows)
     = {r \<in> set rows. \<not> (r_id r = i \<and> is_deleted r = 1)}"
  by (auto simp: sql_delete_def)

lemma purge_db:
  "handle cfg now cookie (Purge i) d = (res, d') \<Longrightarrow>
   d' = d \<or> d' = d\<lparr>auth_records := sql_delete (\<lambda>r. r_id r = i \<and> is_deleted r = 1) (auth_records d)\<rparr>"
  by (auto simp: authenticateToken_def isAdmin_def delete_records_permanent_def
      split: option.splits if_splits)

lemma purge_removes_id:
  assumes "distinct (map r_id rows)" and "r \<in> set rows" and "r_id r = i" and "is_deleted r = 1"
  shows "\<forall>r' \<in> set (sql_delete (\<lambda>r. r_id r = i \<and> is_deleted r = 1) rows). r_id r' \<noteq> i"
proof
  fix r' assume a: "r' \<in> set (sql_delete (\<lambda>r. r_id r = i \<and> is_deleted r = 1) rows)"
  show "r_id r' \<noteq> i"
  proof
    assume "r_id r' = i"
    moreover from a have "r' \<in> set rows" by (simp add: sql_delete_def)
    moreover from assms(1) have "inj_on r_id (set rows)" by (simp add: distinct_map)
    ultimately have "r' = r" using assms(2,3) by (auto dest: inj_onD)
    with a assms(3,4) show False by (simp add: sql_delete_def)
  qed
qed

text \<open>
  C1. Whoever sends \<^verbatim>\<open>DELETE /api/records/:id/permanent\<close>, a row that is gone afterwards
  had the id of the request and \<^verbatim>\<open>is_deleted = 1\<close>, and every row with \<^verbatim>\<open>is_deleted = 0\<close>
  is still in the store. When an administrator purges a trashed record (ids being the
  table's primary key), the request succeeds and no row with that id is left in the
  store, in the active listing or in the trash listing.
\<close>

theorem purge_only_trashed:
  assumes "handle cfg now cookie (Purge i) d = (res, d')"
  shows "(\<forall>r \<in> set (auth_records d). r \<notin> set (auth_records d') \<longrightarrow> r_id r = i \<and> is_deleted r = 1)
       \<and> (\<forall>r \<in> set (auth_records d). is_deleted r = 0 \<longrightarrow> r \<in> set (auth_records d'))
       \<and> (\<forall>tok pl. cookie = Some tok \<and> jwt_verify tok (SESSION_SECRET cfg) now = Some pl
             \<and> stored_role d (tok_id pl) = Some (Some ''admin'')
             \<and> distinct (map r_id (auth_records d))
             \<and> (\<exists>r \<in> set (auth_records d). r_id r = i \<and> is_deleted r = 1)
           \<longrightarrow> res = reply 200 Success
               \<and> (\<forall>r \<in> set (auth_records d'). r_id r \<noteq> i)
               \<and> (\<forall>r \<in> set (list_active d'). r_id r \<noteq> i)
               \<and> (\<forall>r \<in> set (list_trashed d'). r_id r \<noteq> i))"
proof (intro conjI allI impI)
  show "\<forall>r \<in> set (auth_records d). r \<notin> set (auth_records d') \<longrightarrow> r_id r = i \<and> is_deleted r = 1"
    using purge_db[OF assms] by (auto simp: purge_set)
  show "\<forall>r \<in> set (auth_records d). is_deleted r = 0 \<longrightarrow> r \<in> set (auth_records d')"
    using purge_db[OF assms] by (auto simp: purge_set)
next
  fix tok pl
  assume h: "cookie = Some tok \<and> jwt_verify tok (SESSION_SECRET cfg) now = Some pl
             \<and> stored_role d (tok_id pl) = Some (Some ''admin'')
             \<and> distinct (map r_id (auth_records d))
             \<and> (\<exists>r \<in> set (auth_records d). r_id r = i \<and> is_deleted r = 1)"
  then have run: "handle cfg now cookie (Purge i) d = delete_records_permanent i d"
    by (simp add: authenticateToken_valid isAdmin_passes)
  with assms have res: "res = reply 200 Success"
    and d': "auth_records d' = sql_delete (\<lambda>r. r_id r = i \<and> is_deleted r = 1) (auth_records d)"
    by (auto simp: delete_records_permanent_def)
  from h obtain r where "r \<in> set (auth_records d)" "r_id r = i" "is_deleted r = 1" by blast
  with h have gone: "\<forall>r \<in> set (auth_records d'). r_id r \<noteq> i"
    unfolding d' by (intro purge_removes_id) auto
  show "res = reply 200 Success" by (rule res)
  show "\<forall>r \<in> set (auth_records d'). r_id r \<noteq> i" by (rule gone)
  show "\<forall>r \<in> set (list_active d'). r_id r \<noteq> i" using gone by (simp add: set_list_active)
  show "\<forall>r \<in> set (list_trashed d'). r_id r \<noteq> i" using gone by (simp add: set_list_trashed)
qed

text \<open>
  The administrator purges the trashed record 2 of a store that also holds the active
  record 1: record 2 is gone from the store and from both listings, record 1 stays; and
  purging the active record 1 changes nothing.
\<close>

theorem purge_only_trashed_witness:
  "handle ex_cfg 100 (Some (ex_token ex_admin)) (Purge 2)
       (ex_db 2 [ex_record 1 (Some ''Pending'') 0 10 10, ex_record 2 (Some ''Denied'') 1 10 20])
     = (reply 200 Success, ex_db 2 [ex_record 1 (Some ''Pending'') 0 10 10])
   \<and> list_active (ex_db 2 [ex_record 1 (Some ''Pending'') 0 10 10])
       = [ex_record 1 (Some ''Pending'') 0 10 10]
   \<and> list_trashed (ex_db 2 [ex_record 1 (Some ''Pending'') 0 10 10]) = []
   \<and> handle ex_cfg 100 (Some (ex_token ex_admin)) (Purge 1)
       (ex_db 2 [ex_record 1 (Some ''Pending'') 0 10 10, ex_record 2 (Some ''Denied'') 1 10 20])
     = (reply 200 Success,
        ex_db 2 [ex_record 1 (Some ''Pending'') 0 10 10, ex_record 2 (Some ''Denied'') 1 10 20])"
  using purge_only_trashed [of ex_cfg 100 "Some (ex_token ex_admin)" 2
      "ex_db 2 [ex_record 1 (Some ''Pending'') 0 10 10, ex_record 2 (Some ''Denied'') 1 10 20]"
      "reply 200 Success" "ex_db 2 [ex_record 1 (Some ''Pending'') 0 10 10]"]
  by (simp add: ex_defs route_defs)

section \<open>Rejected sessions\<close>

text \<open>
  C2, as the code has it. On every route behind \<^verbatim>\<open>authenticateToken\<close>, a non-empty
  token that fails verification is answered 403 with the error \<^verbatim>\<open>Forbidden\<close>, and the
  store is untouched; 401 is the answer to a request with no token or an empty one; and
  a valid session whose stored role is not \<^verbatim>\<open>admin\<close> is answered 403, too, on the routes
  behind \<^verbatim>\<open>isAdmin\<close>.
\<close>

theorem failed_verification_is_403:
  assumes "needs_session req" and "tok \<noteq> Malformed []"
      and "jwt_verify tok (SESSION_SECRET cfg) now = None"
  shows "handle cfg now (Some tok) req d = (reply 403 (Error ''Forbidden''), d)
       \<and> handle cfg now None req d = (reply 401 (Error ''Unauthorized''), d)
       \<and> handle cfg now (Some (Malformed [])) req d = (reply 401 (Error ''Unauthorized''), d)
       \<and> (\<forall>tok' pl. jwt_verify tok' (SESSION_SECRET cfg) now = Some pl
             \<and> stored_role d (tok_id pl) \<noteq> Some (Some ''admin'') \<and> admin_gated req
           \<longrightarrow> handle cfg now (Some tok') req d = (reply 403 (Error ''Admin access required''), d))"
  using assms by (auto simp: invalid_token_403 no_token_401 gated_refused)

text \<open>The administrator's token, presented at the instant it expires.\<close>

theorem failed_verification_is_403_witness:
  "needs_session (ListRecords :: unit request)
   \<and> ex_token ex_admin \<noteq> Malformed []
   \<and> jwt_verify (ex_token ex_admin) (SESSION_SECRET ex_cfg) (24 * 60 * 60) = None
   \<and> handle ex_cfg (24 * 60 * 60) (Some (ex_token ex_admin)) ListRecords (ex_db 0 [])
       = (reply 403 (Error ''Forbidden''), ex_db 0 [])
   \<and> handle ex_cfg (24 * 60 * 60) None ListRecords (ex_db 0 [])
       = (reply 401 (Error ''Unauthorized''), ex_db 0 [])"
  using failed_verification_is_403 [of "ListRecords :: unit request" "ex_token ex_admin" ex_cfg
      "24 * 60 * 60" "ex_db 0 []"]
  by (simp add: ex_defs route_defs)

text \<open>
  C2 as stated fails: a malformed token, a token signed with another key and an expired
  token all get 403 on \<^verbatim>\<open>GET /api/records\<close>, not the 401 of a request without a token.
\<close>

theorem failed_verification_not_401:
  "http_status (fst (handle ex_cfg 100 (Some (Malformed ''not.a.token'')) ListRecords (ex_db 0 []))) = 403
   \<and> http_status (fst (handle ex_cfg 100
        (Some (jwt_sign \<lparr>tok_id = 1, tok_username = ''admin''\<rparr> ''another-key'' 0))
        ListRecords (ex_db 0 []))) = 403
   \<and> http_status (fst (handle ex_cfg (24 * 60 * 60) (Some (ex_token ex_admin)) ListRecords
        (ex_db 0 []))) = 403
   \<and> http_status (fst (handle ex_cfg 100 None ListRecords (ex_db 0 []))) = 401
   \<and> http_status (fst (handle ex_cfg 100 (Some (Malformed ''not.a.token'')) ListRecords (ex_db 0 [])))
       \<noteq> http_status (fst (handle ex_cfg 100 None ListRecords (ex_db 0 [])))"
  by (simp add: ex_defs route_defs)

section \<open>Record statistics\<close>

lemma one_bucket:
  "distinct ks \<Longrightarrow>
   (\<Sum>k\<leftarrow>ks. if v = Some k then 1 else 0) + (if v \<notin> set (map Some ks) then 1 else 0) = (1::nat)"
  by (induction ks) auto

lemma bucket_partition:
  assumes "distinct ks"
  shows "length xs = (\<Sum>k\<leftarrow>ks. length (filter (\<lambda>x. f x = Some k) xs))
                     + length (filter (\<lambda>x. f x \<notin> set (map Some ks)) xs)"
proof (induction xs)
  case Nil
  show ?case by simp
next
  case (Cons x xs)
  have "(\<Sum>k\<leftarrow>ks. length (filter (\<lambda>x. f x = Some k) (x # xs)))
        = (\<Sum>k\<leftarrow>ks. if f x = Some k then 1 else 0)
          + (\<Sum>k\<leftarrow>ks. length (filter (\<lambda>x. f x = Some k) xs))"
    by (induction ks) auto
  moreover have "length (filter (\<lambda>x. f x \<notin> set (map Some ks)) (x # xs))
        = (if f x \<notin> set (map Some ks) then 1 else 0)
          + length (filter (\<lambda>x. f x \<notin> set (map Some ks)) xs)"
    by simp
  ultimately show ?case using Cons.IH one_bucket[OF assms, of "f x"] by simp
qed

lemma total_split:
  "total (recordStats cfg now d)
     = status_sum (recordStats cfg now d) + int (length (other_status_rows d))"
proof -
  let ?rows = "filter (\<lambda>r. is_deleted r = 0) (auth_records d)"
  have part: "length ?rows
      = (\<Sum>k\<leftarrow>known_statuses. length (filter (\<lambda>r. status (cols r) = Some k) ?rows))
        + length (filter (\<lambda>r. status (cols r) \<notin> set (map Some known_statuses)) ?rows)"
    by (rule bucket_partition) (simp add: known_statuses_def)
  have other: "filter (\<lambda>r. status (cols r) \<notin> set (map Some known_statuses)) ?rows
      = other_status_rows d"
    by (simp add: other_status_rows_def conj_commute)
  show ?thesis
  proof (cases "?rows = []")
    case True
    then have "other_status_rows d = []" using other by (metis filter.simps(1))
    with True show ?thesis
      by (simp add: recordStats_def status_sum_def null_as_zero_def sql_sum_case_def
          sql_count_def Let_def)
  next
    case False
    have "int (length ?rows)
        = int (\<Sum>k\<leftarrow>known_statuses. length (filter (\<lambda>r. status (cols r) = Some k) ?rows))
          + int (length (other_status_rows d))"
      using part other by simp
    with False show ?thesis
      by (simp add: recordStats_def status_sum_def null_as_zero_def sql_sum_case_def
          sql_count_def Let_def known_statuses_def cong: conj_cong)
  qed
qed

text \<open>
  C3, as the code has it. \<^verbatim>\<open>total\<close> is the sum of the seven status fields plus the number
  of active records whose status is \<^verbatim>\<open>NULL\<close> or none of the seven; so it equals the sum
  when there is no such record.
\<close>

theorem total_is_sum_plus_other:
  "total (recordStats cfg now d)
     = status_sum (recordStats cfg now d) + int (length (other_status_rows d))
   \<and> (other_status_rows d = []
        \<longrightarrow> total (recordStats cfg now d) = status_sum (recordStats cfg now d))"
  using total_split[of cfg now d] by simp

text \<open>Two active records with enumerated statuses; the odd status is in the trash.\<close>

theorem total_is_sum_plus_other_witness:
  "other_status_rows (ex_db 3 [ex_record 1 (Some ''Pending'') 0 10 10,
        ex_record 2 (Some ''Denied'') 0 10 20, ex_record 3 (Some ''Archived'') 1 10 30]) = []
   \<and> total (recordStats ex_cfg 100 (ex_db 3 [ex_record 1 (Some ''Pending'') 0 10 10,
        ex_record 2 (Some ''Denied'') 0 10 20, ex_record 3 (Some ''Archived'') 1 10 30])) = 2
   \<and> status_sum (recordStats ex_cfg 100 (ex_db 3 [ex_record 1 (Some ''Pending'') 0 10 10,
        ex_record 2 (Some ''Denied'') 0 10 20, ex_record 3 (Some ''Archived'') 1 10 30])) = 2"
  using total_is_sum_plus_other [of ex_cfg 100 "ex_db 3 [ex_record 1 (Some ''Pending'') 0 10 10,
        ex_record 2 (Some ''Denied'') 0 10 20, ex_record 3 (Some ''Archived'') 1 10 30]"]
  by (simp add: ex_defs route_defs other_status_rows_def known_statuses_def recordStats_def
      status_sum_def null_as_zero_def sql_sum_case_def sql_count_def)

text \<open>
  C3 as stated fails: the employee posts a record with the status \<^verbatim>\<open>Archived\<close> to an
  empty table. The statistics then have \<^verbatim>\<open>total = 1\<close> and every status field 0.
\<close>

theorem total_exceeds_sum:
  "snd (handle ex_cfg 100 (Some (ex_token ex_employee)) (CreateRecord (ex_body (Some ''Archived'')))
          (ex_db 0 []))
     = ex_db 1 [ex_record 1 (Some ''Archived'') 0 100 100]
   \<and> recordStats ex_cfg 100 (ex_db 1 [ex_record 1 (Some ''Archived'') 0 100 100])
     = \<lparr>total = 1, pending = Some 0, approved = Some 0, denied = Some 0, not_required = Some 0,
        follow_up = Some 0, cancelled = Some 0, not_covered = Some 0, submitted_today = Some 1\<rparr>
   \<and> status_sum (recordStats ex_cfg 100 (ex_db 1 [ex_record 1 (Some ''Archived'') 0 100 100])) = 0
   \<and> total (recordStats ex_cfg 100 (ex_db 1 [ex_record 1 (Some ''Archived'') 0 100 100]))
       \<noteq> status_sum (recordStats ex_cfg 100 (ex_db 1 [ex_record 1 (Some ''Archived'') 0 100 100]))"
  by (simp add: ex_defs route_defs other_status_rows_def known_statuses_def recordStats_def
      status_sum_def null_as_zero_def sql_sum_case_def sql_count_def)

section \<open>The role is read from the store\<close>

lemma find_map_update:
  assumes "\<And>u. u_id (g u) = u_id u"
  shows "find (\<lambda>u. u_id u = i) (map (\<lambda>u. if u_id u = i then g u else u) us)
         = map_option g (find (\<lambda>u. u_id u = i) us)"
  using assms by (induction us) auto

lemma patch_users_demotes:
  assumes "patch_users i uname pw (Some ''employee'') d0 = (res, d)" and "http_status res = 200"
  shows "stored_role d i \<noteq> Some (Some ''admin'')"
proof (cases "list_ex (\<lambda>u. u_id u = i) (users d0)")
  case False
  then have "find (\<lambda>u. u_id u = i) (users d0) = None"
    by (simp add: find_None_iff list_ex_iff)
  moreover from False assms have "d = d0" by (simp add: patch_users_def)
  ultimately show ?thesis by (simp add: stored_role_def select_user_def)
next
  case True
  define g where "g = (\<lambda>u::user. case pw of
         None \<Rightarrow> u\<lparr>username := the uname, role := Some ''employee''\<rparr>
       | Some p \<Rightarrow>
           if p = [] then u\<lparr>username := the uname, role := Some ''employee''\<rparr>
           else u\<lparr>username := the uname, password := hashSync p, role := Some ''employee''\<rparr>)"
  have g: "u_id (g u) = u_id u" "role (g u) = Some ''employee''" for u
    by (simp_all add: g_def split: option.splits)
  from True assms have d: "users d = map (\<lambda>u. if u_id u = i then g u else u) (users d0)"
    by (auto simp: patch_users_def reply_def sql_update_snd g_def split: option.splits if_splits)
  have "select_user d i = map_option g (find (\<lambda>u. u_id u = i) (users d0))"
    unfolding select_user_def d by (rule find_map_update) (rule g)
  then show ?thesis using g(2) by (auto simp: stored_role_def)
qed

lemma patch_request_demotes:
  assumes "handle cfg t cookie (PatchUser i uname pw (Some ''employee'')) d0 = (res, d)"
      and "http_status res = 200"
  shows "stored_role d i \<noteq> Some (Some ''admin'')"
proof -
  from assms have "patch_users i uname pw (Some ''employee'') d0 = (res, d)"
    by (auto simp: authenticateToken_def isAdmin_def reply_def split: option.splits if_splits)
  then show ?thesis using assms(2) by (rule patch_users_demotes)
qed

lemma admin_handler_status:
  assumes "jwt_verify tok (SESSION_SECRET cfg) now = Some pl"
      and "stored_role d (tok_id pl) = Some (Some ''admin'')"
      and "admin_gated req"
  shows "http_status (fst (handle cfg now (Some tok) req d)) \<noteq> 403"
  using assms
  by (cases req)
     (auto simp: authenticateToken_valid isAdmin_passes get_users_def get_users_stats_def
        post_users_def patch_users_def delete_users_def delete_records_def
        delete_records_permanent_def reply_def Let_def split: option.splits)

lemma login_issues_token:
  assumes "post_auth_login cfg t0 uname pw d = (res, d')" and "http_status res = 200"
  shows "\<exists>u n. uname = Some n \<and> find (\<lambda>u. username u = n) (users d) = Some u
           \<and> set_cookie res = Some (jwt_sign \<lparr>tok_id = u_id u, tok_username = username u\<rparr>
                                     (SESSION_SECRET cfg) t0)
           \<and> d' = d"
  using assms
  by (auto simp: post_auth_login_def reply_def split: option.splits if_splits)

lemma issued_token_valid:
  "now < t0 + 24 * 60 * 60 \<Longrightarrow> jwt_verify (jwt_sign pl secret t0) secret now = Some pl"
  by (simp add: jwt_sign_def)

text \<open>
  C4. For a valid session on a route behind \<^verbatim>\<open>isAdmin\<close>, the request is answered
  \<^verbatim>\<open>403 Admin access required\<close> exactly when the role the user table holds for the id of
  the token is not \<^verbatim>\<open>admin\<close> (the token carries no role), and the store is then left as
  it was. In particular, in the store a successful \<^verbatim>\<open>PATCH /api/users/:id\<close> leaves behind
  after setting that user's role to \<^verbatim>\<open>employee\<close>, the user's token, still valid, is refused
  on every such route.
\<close>

theorem admin_gate_reads_stored_role:
  assumes "jwt_verify tok (SESSION_SECRET cfg) now = Some pl" and "admin_gated req"
  shows "((fst (handle cfg now (Some tok) req d) = reply 403 (Error ''Admin access required''))
            = (stored_role d (tok_id pl) \<noteq> Some (Some ''admin'')))
       \<and> (stored_role d (tok_id pl) \<noteq> Some (Some ''admin'')
            \<longrightarrow> snd (handle cfg now (Some tok) req d) = d)
       \<and> (\<forall>t cookie uname pw res d0.
             handle cfg t cookie (PatchUser (tok_id pl) uname pw (Some ''employee'')) d0 = (res, d)
             \<and> http_status res = 200
           \<longrightarrow> handle cfg now (Some tok) req d = (reply 403 (Error ''Admin access required''), d))"
proof (intro conjI allI impI)
  show "(fst (handle cfg now (Some tok) req d) = reply 403 (Error ''Admin access required''))
            = (stored_role d (tok_id pl) \<noteq> Some (Some ''admin''))"
  proof (cases "stored_role d (tok_id pl) = Some (Some ''admin'')")
    case True
    from admin_handler_status[OF assms(1) True assms(2)] True show ?thesis
      by (auto simp: reply_def)
  next
    case False
    with gated_refused[OF assms(1) False assms(2)] show ?thesis by simp
  qed
next
  assume "stored_role d (tok_id pl) \<noteq> Some (Some ''admin'')"
  from gated_refused[OF assms(1) this assms(2)]
  show "snd (handle cfg now (Some tok) req d) = d" by simp
next
  fix t cookie uname pw res d0
  assume "handle cfg t cookie (PatchUser (tok_id pl) uname pw (Some ''employee'')) d0 = (res, d)
             \<and> http_status res = 200"
  then have "stored_role d (tok_id pl) \<noteq> Some (Some ''admin'')"
    using patch_request_demotes[of cfg t cookie "tok_id pl" uname pw d0 res d] by simp
  from gated_refused[OF assms(1) this assms(2)]
  show "handle cfg now (Some tok) req d = (reply 403 (Error ''Admin access required''), d)" .
qed

text \<open>
  A second administrator logs in at time 0 and lists the users at time 50; the primary
  administrator makes them an employee at time 60; at time 70 the same token, good
  until time 86400, is refused.
\<close>

theorem admin_gate_reads_stored_role_witness:
  "handle ex_cfg 0 None (Login (Some ''lee'') (Some ''pw2'')) ((ex_db 0 [])\<lparr>users := [ex_admin, ex_lead]\<rparr>)
     = (\<lparr>http_status = 200, body = LoginOk (3, ''lee'', Some ''admin''),
         set_cookie = Some (ex_token ex_lead)\<rparr>, (ex_db 0 [])\<lparr>users := [ex_admin, ex_lead]\<rparr>)
   \<and> jwt_verify (ex_token ex_lead) (SESSION_SECRET ex_cfg) 70 = Some \<lparr>tok_id = 3, tok_username = ''lee''\<rparr>
   \<and> admin_gated (ListUsers :: unit request)
   \<and> fst (handle ex_cfg 50 (Some (ex_token ex_lead)) ListUsers ((ex_db 0 [])\<lparr>users := [ex_admin, ex_lead]\<rparr>))
     = reply 200 (UserList [(1, ''admin'', Some ''admin''), (3, ''lee'', Some ''admin'')])
   \<and> handle ex_cfg 60 (Some (ex_token ex_admin)) (PatchUser 3 (Some ''lee'') None (Some ''employee''))
        ((ex_db 0 [])\<lparr>users := [ex_admin, ex_lead]\<rparr>)
     = (reply 200 Success, (ex_db 0 [])\<lparr>users := [ex_admin, ex_lead\<lparr>role := Some ''employee''\<rparr>]\<rparr>)
   \<and> handle ex_cfg 70 (Some (ex_token ex_lead)) ListUsers
        ((ex_db 0 [])\<lparr>users := [ex_admin, ex_lead\<lparr>role := Some ''employee''\<rparr>]\<rparr>)
     = (reply 403 (Error ''Admin access required''),
        (ex_db 0 [])\<lparr>users := [ex_admin, ex_lead\<lparr>role := Some ''employee''\<rparr>]\<rparr>)"
  using admin_gate_reads_stored_role [of "ex_token ex_lead" ex_cfg 70
      "\<lparr>tok_id = 3, tok_username = ''lee''\<rparr>" "ListUsers :: unit request"
      "(ex_db 0 [])\<lparr>users := [ex_admin, ex_lead\<lparr>role := Some ''employee''\<rparr>]\<rparr>"]
  by (simp add: ex_defs route_defs post_auth_login_def view_def get_users_def
      patch_users_def)

section \<open>Soft delete and restore\<close>

text \<open>
  C5. An administrator soft-deletes the record with id \<open>i\<close> at time \<open>t1\<close> and any
  authenticated caller restores it at time \<open>t2\<close>. When the record was active before,
  the store afterwards is the store before with \<^verbatim>\<open>updated_at\<close> of that record set to
  \<open>t2\<close> and nothing else changed; in between, the record has \<^verbatim>\<open>is_deleted = 1\<close> and
  \<^verbatim>\<open>updated_at = t1\<close>.
\<close>

theorem soft_delete_then_restore:
  assumes admin: "jwt_verify tok1 (SESSION_SECRET cfg) t1 = Some pl1"
                 "stored_role d (tok_id pl1) = Some (Some ''admin'')"
      and anyone: "jwt_verify tok2 (SESSION_SECRET cfg) t2 = Some pl2"
      and del: "handle cfg t1 (Some tok1) (SoftDelete i) d = (res1, d1)"
      and res: "handle cfg t2 (Some tok2) (Restore i) d1 = (res2, d2)"
      and active: "\<forall>r \<in> set (auth_records d). r_id r = i \<longrightarrow> is_deleted r = 0"
  shows "res1 = reply 200 Success \<and> res2 = reply 200 Success
       \<and> d1 = d\<lparr>auth_records :=
                 map (\<lambda>r. if r_id r = i then r\<lparr>is_deleted := 1, updated_at := t1\<rparr> else r) (auth_records d)\<rparr>
       \<and> d2 = d\<lparr>auth_records :=
                 map (\<lambda>r. if r_id r = i then r\<lparr>updated_at := t2\<rparr> else r) (auth_records d)\<rparr>"
proof -
  from del admin have 1: "res1 = reply 200 Success"
    "d1 = d\<lparr>auth_records :=
           map (\<lambda>r. if r_id r = i then r\<lparr>is_deleted := 1, updated_at := t1\<rparr> else r) (auth_records d)\<rparr>"
    by (auto simp: authenticateToken_valid isAdmin_passes delete_records_def sql_update_snd)
  from res anyone have 2: "res2 = reply 200 Success"
    "d2 = d1\<lparr>auth_records :=
           map (\<lambda>r. if r_id r = i then r\<lparr>is_deleted := 0, updated_at := t2\<rparr> else r) (auth_records d1)\<rparr>"
    by (auto simp: authenticateToken_valid post_records_restore_def sql_update_snd)
  have "map (\<lambda>r. if r_id r = i then r\<lparr>is_deleted := 0, updated_at := t2\<rparr> else r)
          (map (\<lambda>r. if r_id r = i then r\<lparr>is_deleted := 1, updated_at := t1\<rparr> else r) (auth_records d))
        = map (\<lambda>r. if r_id r = i then r\<lparr>updated_at := t2\<rparr> else r) (auth_records d)"
    using active by (induction "auth_records d") auto
  with 1 2 show ?thesis by simp
qed

text \<open>
  The administrator trashes record 1 at time 100 and the employee restores it at time
  200.
\<close>

theorem soft_delete_then_restore_witness:
  "handle ex_cfg 100 (Some (ex_token ex_admin)) (SoftDelete 1)
       (ex_db 1 [ex_record 1 (Some ''Pending'') 0 10 10])
     = (reply 200 Success, ex_db 1 [ex_record 1 (Some ''Pending'') 1 10 100])
   \<and> handle ex_cfg 200 (Some (ex_token ex_employee)) (Restore 1)
       (ex_db 1 [ex_record 1 (Some ''Pending'') 1 10 100])
     = (reply 200 Success, ex_db 1 [ex_record 1 (Some ''Pending'') 0 10 200])
   \<and> ex_record 1 (Some ''Pending'') 0 10 200 = (ex_record 1 (Some ''Pending'') 0 10 10)\<lparr>updated_at := 200\<rparr>"
  using soft_delete_then_restore [where cfg = ex_cfg and ?tok1.0 = "ex_token ex_admin" and ?t1.0 = 100
      and ?pl1.0 = "\<lparr>tok_id = 1, tok_username = ''admin''\<rparr>"
      and ?tok2.0 = "ex_token ex_employee" and ?t2.0 = 200
      and ?pl2.0 = "\<lparr>tok_id = 2, tok_username = ''erin''\<rparr>" and i = 1
      and d = "ex_db 1 [ex_record 1 (Some ''Pending'') 0 10 10]"
      and ?res1.0 = "reply 200 Success" and ?d1.0 = "ex_db 1 [ex_record 1 (Some ''Pending'') 1 10 100]"
      and ?res2.0 = "reply 200 Success" and ?d2.0 = "ex_db 1 [ex_record 1 (Some ''Pending'') 0 10 200]"]
  by (simp add: ex_defs route_defs stored_role_def)

section \<open>Who may do what\<close>

lemma restore_runs:
  assumes "jwt_verify tok (SESSION_SECRET cfg) now = Some pl"
  shows "handle cfg now (Some tok) (Restore i) d
       = (reply 200 Success,
          d\<lparr>auth_records :=
               map (\<lambda>r. if r_id r = i then r\<lparr>is_deleted := 0, updated_at := now\<rparr> else r)
                 (auth_records d)\<rparr>)"
  using assms by (simp add: authenticateToken_valid post_records_restore_def sql_update_snd)

text \<open>
  C6. A caller with a valid session whose stored role is \<^verbatim>\<open>employee\<close> is answered
  \<^verbatim>\<open>403 Admin access required\<close> on every route behind \<^verbatim>\<open>isAdmin\<close> (listing, creating,
  editing and deleting users, the employee statistics, soft delete and purge), whatever
  the body, and the store is left as it was. \<^verbatim>\<open>POST /api/records/:id/restore\<close> succeeds
  for every valid session, whatever the role: the record gets \<^verbatim>\<open>is_deleted = 0\<close> and the
  request's time as \<^verbatim>\<open>updated_at\<close>, and a record that was in the trash is in the active
  listing afterwards.
\<close>

theorem employee_refused_restore_open:
  assumes "jwt_verify tok (SESSION_SECRET cfg) now = Some pl"
  shows "(stored_role d (tok_id pl) = Some (Some ''employee'') \<and> admin_gated req
            \<longrightarrow> handle cfg now (Some tok) req d = (reply 403 (Error ''Admin access required''), d))
       \<and> handle cfg now (Some tok) (Restore i) d
           = (reply 200 Success,
              d\<lparr>auth_records :=
                   map (\<lambda>r. if r_id r = i then r\<lparr>is_deleted := 0, updated_at := now\<rparr> else r)
                     (auth_records d)\<rparr>)
       \<and> (\<forall>r \<in> set (auth_records d). r_id r = i \<and> is_deleted r = 1
            \<longrightarrow> r\<lparr>is_deleted := 0, updated_at := now\<rparr>
                  \<in> set (list_active (snd (handle cfg now (Some tok) (Restore i) d))))"
proof (intro conjI impI ballI)
  assume "stored_role d (tok_id pl) = Some (Some ''employee'') \<and> admin_gated req"
  then have "stored_role d (tok_id pl) \<noteq> Some (Some ''admin'')" and "admin_gated req" by simp_all
  with assms show "handle cfg now (Some tok) req d = (reply 403 (Error ''Admin access required''), d)"
    by (intro gated_refused)
next
  show "handle cfg now (Some tok) (Restore i) d
           = (reply 200 Success,
              d\<lparr>auth_records :=
                   map (\<lambda>r. if r_id r = i then r\<lparr>is_deleted := 0, updated_at := now\<rparr> else r)
                     (auth_records d)\<rparr>)"
    by (rule restore_runs[OF assms])
next
  fix r assume "r \<in> set (auth_records d)" and "r_id r = i \<and> is_deleted r = 1"
  then show "r\<lparr>is_deleted := 0, updated_at := now\<rparr>
                  \<in> set (list_active (snd (handle cfg now (Some tok) (Restore i) d)))"
    unfolding restore_runs[OF assms]
    by (auto simp: set_list_active image_iff intro!: bexI[of _ r])
qed

text \<open>
  The employee may not create an administrator, and restores the trashed record 1.
\<close>

theorem employee_refused_restore_open_witness:
  "jwt_verify (ex_token ex_employee) (SESSION_SECRET ex_cfg) 100 = Some \<lparr>tok_id = 2, tok_username = ''erin''\<rparr>
   \<and> stored_role (ex_db 1 [ex_record 1 (Some ''Pending'') 1 10 50]) 2 = Some (Some ''employee'')
   \<and> handle ex_cfg 100 (Some (ex_token ex_employee))
        (CreateUser (Some ''mallory'') (Some ''x'') (Some ''admin''))
        (ex_db 1 [ex_record 1 (Some ''Pending'') 1 10 50])
     = (reply 403 (Error ''Admin access required''), ex_db 1 [ex_record 1 (Some ''Pending'') 1 10 50])
   \<and> handle ex_cfg 100 (Some (ex_token ex_employee)) (Restore 1)
        (ex_db 1 [ex_record 1 (Some ''Pending'') 1 10 50])
     = (reply 200 Success, ex_db 1 [ex_record 1 (Some ''Pending'') 0 10 100])
   \<and> list_active (ex_db 1 [ex_record 1 (Some ''Pending'') 0 10 100])
     = [ex_record 1 (Some ''Pending'') 0 10 100]"
  using employee_refused_restore_open [where cfg = ex_cfg and tok = "ex_token ex_employee"
      and now = 100 and pl = "\<lparr>tok_id = 2, tok_username = ''erin''\<rparr>"
      and d = "ex_db 1 [ex_record 1 (Some ''Pending'') 1 10 50]"
      and req = "CreateUser (Some ''mallory'') (Some ''x'') (Some ''admin'')" and i = 1]
  by (simp add: ex_defs route_defs stored_role_def)

section \<open>Creating and updating records\<close>

lemma create_runs:
  assumes "jwt_verify tok (SESSION_SECRET cfg) now = Some pl"
  shows "handle cfg now (Some tok) (CreateRecord b) d
       = (reply 200 (Created (next_rowid (auth_records_seq d) (map r_id (auth_records d)))),
          d\<lparr>auth_records := auth_records d @
               [\<lparr>r_id = next_rowid (auth_records_seq d) (map r_id (auth_records d)),
                 cols = bind_fields cfg b, is_deleted = 0, user_id = Some (tok_id pl),
                 created_at = now, updated_at = now\<rparr>],
             auth_records_seq := next_rowid (auth_records_seq d) (map r_id (auth_records d))\<rparr>)"
  using assms by (simp add: authenticateToken_valid post_records_def Let_def)

lemma bind_fields_status: "status (bind_fields cfg b) = status b"
  by (simp add: bind_fields_def)

text \<open>
  C7 at a body without \<^verbatim>\<open>status\<close>: the employee posts it to an empty table. The row is
  inserted with \<^verbatim>\<open>is_deleted = 0\<close> and equal timestamps, and with the status \<^verbatim>\<open>NULL\<close>, not
  \<^verbatim>\<open>Pending\<close>: the statement binds the missing value to the \<^verbatim>\<open>status\<close> column, so the
  column's default \<^verbatim>\<open>'Pending'\<close> is never used.
\<close>

theorem create_without_status_stores_null:
  "handle ex_cfg 100 (Some (ex_token ex_employee)) (CreateRecord (ex_body None)) (ex_db 0 [])
     = (reply 200 (Created 1), ex_db 1 [ex_record 1 None 0 100 100])
   \<and> status (cols (ex_record 1 None 0 100 100)) = None
   \<and> status (cols (ex_record 1 None 0 100 100)) \<noteq> Some ''Pending''
   \<and> is_deleted (ex_record 1 None 0 100 100) = 0
   \<and> created_at (ex_record 1 None 0 100 100) = updated_at (ex_record 1 None 0 100 100)"
  by (simp add: ex_defs route_defs)

lemma update_runs:
  assumes "jwt_verify tok (SESSION_SECRET cfg) now = Some pl"
  shows "handle cfg now (Some tok) (UpdateRecord i b) d
       = (reply 200 Success,
          d\<lparr>auth_records :=
               map (\<lambda>r. if r_id r = i then r\<lparr>cols := bind_fields cfg b, updated_at := now\<rparr> else r)
                 (auth_records d)\<rparr>)"
  using assms by (simp add: authenticateToken_valid put_records_def sql_update_snd)



section \<open>Ids that are not in the table\<close>

lemma update_missing:
  "i \<notin> r_id ` set rows \<Longrightarrow> sql_update (\<lambda>r. r_id r = i) f rows = (0, rows)"
  by (induction rows) (auto simp: sql_update_def)

text \<open>
  C9. When no record has the id, update and restore (for any valid session) and soft
  delete (for an administrator) are answered \<^verbatim>\<open>200\<close> with \<^verbatim>\<open>{success: true}\<close>, the store is
  unchanged, and the \<^verbatim>\<open>UPDATE\<close> of each of them changes zero rows.
\<close>

theorem missing_id_is_success:
  assumes "jwt_verify tok (SESSION_SECRET cfg) now = Some pl"
      and "i \<notin> r_id ` set (auth_records d)"
  shows "handle cfg now (Some tok) (UpdateRecord i b) d = (reply 200 Success, d)
       \<and> handle cfg now (Some tok) (Restore i) d = (reply 200 Success, d)
       \<and> (stored_role d (tok_id pl) = Some (Some ''admin'')
            \<longrightarrow> handle cfg now (Some tok) (SoftDelete i) d = (reply 200 Success, d))
       \<and> (\<forall>f. fst (sql_update (\<lambda>r. r_id r = i) f (auth_records d)) = 0)"
  using assms
  by (simp add: authenticateToken_valid isAdmin_passes put_records_def post_records_restore_def
      delete_records_def update_missing)

text \<open>
  There is no record 7 in a table that holds record 1.
\<close>

theorem missing_id_is_success_witness:
  "jwt_verify (ex_token ex_admin) (SESSION_SECRET ex_cfg) 100 = Some \<lparr>tok_id = 1, tok_username = ''admin''\<rparr>
   \<and> 7 \<notin> r_id ` set (auth_records (ex_db 1 [ex_record 1 (Some ''Pending'') 0 10 10]))
   \<and> handle ex_cfg 100 (Some (ex_token ex_admin)) (UpdateRecord 7 (ex_body (Some ''Approved'')))
        (ex_db 1 [ex_record 1 (Some ''Pending'') 0 10 10])
     = (reply 200 Success, ex_db 1 [ex_record 1 (Some ''Pending'') 0 10 10])
   \<and> handle ex_cfg 100 (Some (ex_token ex_admin)) (Restore 7)
        (ex_db 1 [ex_record 1 (Some ''Pending'') 0 10 10])
     = (reply 200 Success, ex_db 1 [ex_record 1 (Some ''Pending'') 0 10 10])
   \<and> handle ex_cfg 100 (Some (ex_token ex_admin)) (SoftDelete 7)
        (ex_db 1 [ex_record 1 (Some ''Pending'') 0 10 10])
     = (reply 200 Success, ex_db 1 [ex_record 1 (Some ''Pending'') 0 10 10])"
  using missing_id_is_success [where cfg = ex_cfg and tok = "ex_token ex_admin" and now = 100
      and pl = "\<lparr>tok_id = 1, tok_username = ''admin''\<rparr>" and i = 7
      and b = "ex_body (Some ''Approved'')"
      and d = "ex_db 1 [ex_record 1 (Some ''Pending'') 0 10 10]"]
  by (simp add: ex_defs route_defs stored_role_def)

section \<open>A token whose user is gone\<close>

text \<open>
  C10. A token signed with the server's secret and not yet expired, whose user id is
  in no row of the user table, still lists the records, creates a record (stored with
  that user id), updates and restores; on the routes behind \<^verbatim>\<open>isAdmin\<close> it is answered
  \<^verbatim>\<open>403 Admin access required\<close> and the store is left as it was.
\<close>

theorem token_outlives_user:
  assumes "now < ex" and "select_user d (tok_id pl) = None"
  shows "handle cfg now (Some (Jwt (SESSION_SECRET cfg) pl iat ex)) ListRecords d
           = (reply 200 (RecordList (list_active d)), d)
       \<and> handle cfg now (Some (Jwt (SESSION_SECRET cfg) pl iat ex)) (CreateRecord b) d
           = (reply 200 (Created (next_rowid (auth_records_seq d) (map r_id (auth_records d)))),
              d\<lparr>auth_records := auth_records d @
                   [\<lparr>r_id = next_rowid (auth_records_seq d) (map r_id (auth_records d)),
                     cols = bind_fields cfg b, is_deleted = 0, user_id = Some (tok_id pl),
                     created_at = now, updated_at = now\<rparr>],
                 auth_records_seq := next_rowid (auth_records_seq d) (map r_id (auth_records d))\<rparr>)
       \<and> handle cfg now (Some (Jwt (SESSION_SECRET cfg) pl iat ex)) (UpdateRecord i b) d
           = (reply 200 Success,
              d\<lparr>auth_records :=
                   map (\<lambda>r. if r_id r = i then r\<lparr>cols := bind_fields cfg b, updated_at := now\<rparr> else r)
                     (auth_records d)\<rparr>)
       \<and> handle cfg now (Some (Jwt (SESSION_SECRET cfg) pl iat ex)) (Restore i) d
           = (reply 200 Success,
              d\<lparr>auth_records :=
                   map (\<lambda>r. if r_id r = i then r\<lparr>is_deleted := 0, updated_at := now\<rparr> else r)
                     (auth_records d)\<rparr>)
       \<and> (admin_gated req
            \<longrightarrow> handle cfg now (Some (Jwt (SESSION_SECRET cfg) pl iat ex)) req d
                  = (reply 403 (Error ''Admin access required''), d))"
proof -
  from assms(1) have v: "jwt_verify (Jwt (SESSION_SECRET cfg) pl iat ex) (SESSION_SECRET cfg) now = Some pl"
    by simp
  from assms(2) have r: "stored_role d (tok_id pl) \<noteq> Some (Some ''admin'')"
    by (simp add: stored_role_def)
  have l: "handle cfg now (Some (Jwt (SESSION_SECRET cfg) pl iat ex)) ListRecords d
           = (reply 200 (RecordList (list_active d)), d)"
    by (simp add: authenticateToken_valid[OF v] get_records_def)
  show ?thesis
    using gated_refused[OF v r, of req] l create_runs[OF v, of b d] update_runs[OF v, of i b d]
      restore_runs[OF v, of i d]
    by blast
qed

text \<open>
  The administrator deletes the employee at time 50; at time 100 the employee's token
  creates record 1, attributed to user 2, and is refused the list of users.
\<close>

theorem token_outlives_user_witness:
  "handle ex_cfg 50 (Some (ex_token ex_admin)) (DeleteUser 2) (ex_db 0 [])
     = (reply 200 Success, (ex_db 0 [])\<lparr>users := [ex_admin]\<rparr>)
   \<and> ex_token ex_employee = Jwt (SESSION_SECRET ex_cfg) \<lparr>tok_id = 2, tok_username = ''erin''\<rparr> 0 86400
   \<and> select_user ((ex_db 0 [])\<lparr>users := [ex_admin]\<rparr>) 2 = None
   \<and> handle ex_cfg 100 (Some (ex_token ex_employee)) (CreateRecord (ex_body (Some ''Pending'')))
        ((ex_db 0 [])\<lparr>users := [ex_admin]\<rparr>)
     = (reply 200 (Created 1), (ex_db 1 [ex_record 1 (Some ''Pending'') 0 100 100])\<lparr>users := [ex_admin]\<rparr>)
   \<and> handle ex_cfg 100 (Some (ex_token ex_employee)) ListUsers ((ex_db 0 [])\<lparr>users := [ex_admin]\<rparr>)
     = (reply 403 (Error ''Admin access required''), (ex_db 0 [])\<lparr>users := [ex_admin]\<rparr>)"
  using token_outlives_user [where cfg = ex_cfg and now = 100 and ex = 86400 and iat = 0
      and pl = "\<lparr>tok_id = 2, tok_username = ''erin''\<rparr>" and d = "(ex_db 0 [])\<lparr>users := [ex_admin]\<rparr>"
      and b = "ex_body (Some ''Pending'')" and req = "ListUsers :: unit request" and i = 1]
  by (simp add: ex_defs route_defs delete_users_def)

end
